theory Spec2Isabelle
  imports Main "HOL-Library.Word" "HOL-Library.AList"
begin

section \<open>The identifier type: \<open>bson.ObjectId\<close>\<close>

text \<open>
  \<open>docs_src/nosql_databases/tutorial001.py\<close> builds every identifier with
  \<open>ObjectId(hero_id)\<close> and prints it with \<open>str\<close>. An \<open>ObjectId\<close> wraps a byte string;
  two of them are equal when their bytes are. For a \<open>str\<close> argument the constructor
  accepts exactly the strings of length 24 that \<open>bytes.fromhex\<close> accepts, and raises
  \<open>InvalidId\<close> otherwise; \<open>str\<close> gives the lower-case hexadecimal digits of the bytes.
\<close>

datatype ObjectId = ObjectId (binary: "8 word list")

definition hexval :: "char \<Rightarrow> nat option" where
  "hexval c =
     (let n = (of_char c :: nat)
      in if 48 \<le> n \<and> n \<le> 57 then Some (n - 48)
         else if 97 \<le> n \<and> n \<le> 102 then Some (n - 87)
         else if 65 \<le> n \<and> n \<le> 70 then Some (n - 55)
         else None)"

definition is_space :: "char \<Rightarrow> bool" where
  "is_space c = ((of_char c :: nat) = 32 \<or> (9 \<le> (of_char c :: nat) \<and> (of_char c :: nat) \<le> 13))"

text \<open>
  \<open>bytes.fromhex\<close>: white space is skipped before a pair of digits, the two digits of a
  pair are adjacent, anything else is a \<open>ValueError\<close> (here \<open>None\<close>).
\<close>

fun fromhex :: "string \<Rightarrow> 8 word list option" where
  "fromhex [] = Some []"
| "fromhex (c # cs) =
     (if is_space c then fromhex cs
      else (case cs of
              [] \<Rightarrow> None
            | d # ds \<Rightarrow>
                (case hexval c of
                   None \<Rightarrow> None
                 | Some hi \<Rightarrow>
                     (case hexval d of
                        None \<Rightarrow> None
                      | Some lo \<Rightarrow>
                          (case fromhex ds of
                             None \<Rightarrow> None
                           | Some bs \<Rightarrow> Some (of_nat (16 * hi + lo) # bs))))))"

definition hexdigit :: "nat \<Rightarrow> char" where
  "hexdigit n = ''0123456789abcdef'' ! n"

definition hexlify :: "8 word list \<Rightarrow> string" where
  "hexlify bs = concat (map (\<lambda>b. [hexdigit (unat b div 16), hexdigit (unat b mod 16)]) bs)"

definition ObjectId_of_str :: "string \<Rightarrow> ObjectId option" where
  \<comment> \<open>\<open>ObjectId(oid)\<close> for a \<open>str\<close>; \<open>None\<close> is \<open>InvalidId\<close>.\<close>
  "ObjectId_of_str oid =
     (if length oid = 24 then map_option ObjectId (fromhex oid) else None)"

definition ObjectId_str :: "ObjectId \<Rightarrow> string" where
  "ObjectId_str oid = hexlify (binary oid)"

section \<open>Python values, dictionaries and errors\<close>

text \<open>
  The values that the fields of \<open>Hero\<close> and \<open>HeroUpdate\<close> are built from, in a document
  or in a parsed JSON body: \<open>None\<close> (\<open>null\<close>), an integer, a string, an \<open>ObjectId\<close>.
  Booleans, floats, arrays and objects are left out.
\<close>

datatype pyvalue = VNone | VInt int | VStr string | VOid ObjectId

text \<open>
  A \<open>dict\<close> keeps its keys in insertion order: an association list, read with
  \<open>map_of\<close>, written with \<open>AList.update\<close> (in place when the key is there, at the end
  otherwise) and \<open>AList.delete\<close>.
\<close>

type_synonym pydict = "(string \<times> pyvalue) list"

definition dict_update :: "('k \<times> 'v) list \<Rightarrow> ('k \<times> 'v) list \<Rightarrow> ('k \<times> 'v) list" where
  \<comment> \<open>\<open>d.update(e)\<close>\<close>
  "dict_update d e = fold (\<lambda>(k, v). AList.update k v) e d"

text \<open>
  \<open>HTTPException\<close> carries its status code and detail. \<open>RequestValidationError\<close> is
  what the framework answers (422) when a request body or query parameter does not
  validate. \<open>ValidationError\<close> is pydantic's error when a model is built inside a handler,
  \<open>InvalidId\<close> is bson's; neither is caught by the handlers.
\<close>

datatype error =
    HTTPException nat string
  | RequestValidationError
  | ValidationError
  | InvalidId

fun status_code :: "error \<Rightarrow> nat" where
  "status_code (HTTPException code detail) = code"
| "status_code RequestValidationError = 422"
| "status_code ValidationError = 500"
| "status_code InvalidId = 500"

section \<open>The models \<open>Hero\<close> and \<open>HeroUpdate\<close>\<close>

text \<open>
  The fields of \<open>Hero\<close> are \<open>id\<close> (alias \<open>_id\<close>), \<open>name\<close>, \<open>age\<close> and \<open>secret_name\<close>; they
  carry the prefix \<open>Hero_\<close> here. \<open>HeroUpdate\<close> has \<open>name\<close>, \<open>age\<close> and \<open>secret_name\<close>
  (prefix \<open>upd_\<close>), and pydantic's \<open>model_fields_set\<close>: the names of the fields the
  input gave.
\<close>

record Hero =
  Hero_id :: "ObjectId option"
  Hero_name :: string
  Hero_age :: "int option"
  Hero_secret_name :: string

record HeroUpdate =
  upd_name :: "string option"
  upd_age :: "int option"
  upd_secret_name :: "string option"
  model_fields_set :: "string list"

text \<open>
  The schemas of the field types. \<open>int\<close> fields are validated in lax mode, where a \<open>str\<close>
  may be read as an integer: that conversion belongs to pydantic and is the
  parameter \<open>str_as_int\<close> of everything that validates. \<open>PyObjectId\<close> is the union of
  ``is an \<open>ObjectId\<close>'' and ``a \<open>str\<close>, then \<open>ObjectId(...)\<close>''; \<open>InvalidId\<close> raised by the
  latter is not a validation error and leaves the validation at once.
\<close>

definition str_schema :: "pyvalue \<Rightarrow> error + string" where
  "str_schema v = (case v of VStr s \<Rightarrow> Inr s | _ \<Rightarrow> Inl ValidationError)"

definition int_schema :: "(string \<Rightarrow> int option) \<Rightarrow> pyvalue \<Rightarrow> error + int" where
  "int_schema str_as_int v =
     (case v of
        VInt i \<Rightarrow> Inr i
      | VStr s \<Rightarrow> (case str_as_int s of None \<Rightarrow> Inl ValidationError | Some i \<Rightarrow> Inr i)
      | _ \<Rightarrow> Inl ValidationError)"

definition PyObjectId_schema :: "pyvalue \<Rightarrow> error + ObjectId" where
  "PyObjectId_schema v =
     (case v of
        VOid oid \<Rightarrow> Inr oid
      | VStr s \<Rightarrow> (case ObjectId_of_str s of None \<Rightarrow> Inl InvalidId | Some oid \<Rightarrow> Inr oid)
      | _ \<Rightarrow> Inl ValidationError)"

definition nullable :: "(pyvalue \<Rightarrow> error + 'a) \<Rightarrow> pyvalue \<Rightarrow> error + 'a option" where
  \<comment> \<open>\<open>Optional[T]\<close>\<close>
  "nullable schema v =
     (case v of
        VNone \<Rightarrow> Inr None
      | _ \<Rightarrow> (case schema v of Inl e \<Rightarrow> Inl e | Inr x \<Rightarrow> Inr (Some x)))"

definition required :: "(pyvalue \<Rightarrow> error + 'a) \<Rightarrow> pyvalue option \<Rightarrow> error + 'a" where
  "required schema inp = (case inp of None \<Rightarrow> Inl ValidationError | Some v \<Rightarrow> schema v)"

definition with_default :: "'a \<Rightarrow> (pyvalue \<Rightarrow> error + 'a) \<Rightarrow> pyvalue option \<Rightarrow> error + 'a" where
  "with_default dflt schema inp = (case inp of None \<Rightarrow> Inr dflt | Some v \<Rightarrow> schema v)"

definition id_input :: "pydict \<Rightarrow> pyvalue option" where
  \<comment> \<open>\<open>Field(default=None, alias="_id")\<close> with \<open>populate_by_name=True\<close>: the alias, else the name\<close>
  "id_input d = (case map_of d ''_id'' of None \<Rightarrow> map_of d ''id'' | Some v \<Rightarrow> Some v)"

definition Hero_validate :: "(string \<Rightarrow> int option) \<Rightarrow> pydict \<Rightarrow> error + Hero" where
  \<comment> \<open>\<open>Hero(**d)\<close>\<close>
  "Hero_validate str_as_int d =
     (let f_id = with_default None (nullable PyObjectId_schema) (id_input d);
          f_name = required str_schema (map_of d ''name'');
          f_age = with_default None (nullable (int_schema str_as_int)) (map_of d ''age'');
          f_secret_name = required str_schema (map_of d ''secret_name'')
      in case f_id of
           Inl InvalidId \<Rightarrow> Inl InvalidId
         | Inl _ \<Rightarrow> Inl ValidationError
         | Inr i \<Rightarrow>
             (case f_name of
                Inl _ \<Rightarrow> Inl ValidationError
              | Inr n \<Rightarrow>
                  (case f_age of
                     Inl _ \<Rightarrow> Inl ValidationError
                   | Inr a \<Rightarrow>
                       (case f_secret_name of
                          Inl _ \<Rightarrow> Inl ValidationError
                        | Inr s \<Rightarrow>
                            Inr \<lparr>Hero_id = i, Hero_name = n, Hero_age = a,
                                 Hero_secret_name = s\<rparr>))))"

definition HeroUpdate_validate :: "(string \<Rightarrow> int option) \<Rightarrow> pydict \<Rightarrow> error + HeroUpdate" where
  "HeroUpdate_validate str_as_int d =
     (case with_default None (nullable str_schema) (map_of d ''name'') of
        Inl _ \<Rightarrow> Inl ValidationError
      | Inr n \<Rightarrow>
          (case with_default None (nullable (int_schema str_as_int)) (map_of d ''age'') of
             Inl _ \<Rightarrow> Inl ValidationError
           | Inr a \<Rightarrow>
               (case with_default None (nullable str_schema) (map_of d ''secret_name'') of
                  Inl _ \<Rightarrow> Inl ValidationError
                | Inr s \<Rightarrow>
                    Inr \<lparr>upd_name = n, upd_age = a, upd_secret_name = s,
                         model_fields_set =
                           filter (\<lambda>k. map_of d k \<noteq> None)
                             [''name'', ''age'', ''secret_name'']\<rparr>)))"

definition dump_str :: "string option \<Rightarrow> pyvalue" where
  "dump_str x = (case x of None \<Rightarrow> VNone | Some s \<Rightarrow> VStr s)"

definition dump_int :: "int option \<Rightarrow> pyvalue" where
  "dump_int x = (case x of None \<Rightarrow> VNone | Some i \<Rightarrow> VInt i)"

definition Hero_model_dump :: "Hero \<Rightarrow> pydict" where
  \<comment> \<open>\<open>hero.model_dump(by_alias=True, exclude={"id"})\<close>\<close>
  "Hero_model_dump hero =
     [(''name'', VStr (Hero_name hero)), (''age'', dump_int (Hero_age hero)),
      (''secret_name'', VStr (Hero_secret_name hero))]"

definition HeroUpdate_model_dump :: "HeroUpdate \<Rightarrow> pydict" where
  \<comment> \<open>\<open>hero.model_dump(exclude_unset=True)\<close>\<close>
  "HeroUpdate_model_dump hero =
     filter (\<lambda>(k, v). k \<in> set (model_fields_set hero))
       [(''name'', dump_str (upd_name hero)), (''age'', dump_int (upd_age hero)),
        (''secret_name'', dump_str (upd_secret_name hero))]"

definition Hero_response :: "Hero \<Rightarrow> pydict" where
  \<comment> \<open>the body of a response with \<open>response_model=Hero\<close>: by alias, the id printed by \<open>str\<close>\<close>
  "Hero_response hero =
     [(''_id'', (case Hero_id hero of None \<Rightarrow> VNone | Some oid \<Rightarrow> VStr (ObjectId_str oid))),
      (''name'', VStr (Hero_name hero)), (''age'', dump_int (Hero_age hero)),
      (''secret_name'', VStr (Hero_secret_name hero))]"

section \<open>The collection\<close>

text \<open>
  The collection is the one of \<open>tests/test_tutorial/test_nosql_databases/test_tutorial001.py\<close>:
  a \<open>dict\<close> \<open>documents\<close> from \<open>ObjectId\<close> to document, with \<open>mock_insert_one\<close>,
  \<open>mock_find_one\<close>, \<open>mock_update_one\<close>, \<open>mock_delete_one\<close> and \<open>mock_find\<close>. The
  identifier that \<open>ObjectId()\<close> makes up in \<open>mock_insert_one\<close> is the argument \<open>doc_id\<close>.
  The field \<open>calls\<close> is added to the state: it lists, in order, the operations that were
  awaited on the collection, so that ``no store operation'' can be stated.
\<close>

datatype store_call =
    InsertOne pydict
  | Find
  | FindOne ObjectId
  | UpdateOne ObjectId pydict
  | DeleteOne ObjectId

record collection =
  documents :: "(ObjectId \<times> pydict) list"
  calls :: "store_call list"

definition insert_one :: "ObjectId \<Rightarrow> pydict \<Rightarrow> collection \<Rightarrow> ObjectId \<times> collection" where
  "insert_one doc_id doc coll =
     (doc_id,
      coll\<lparr>documents := AList.update doc_id (AList.update ''_id'' (VOid doc_id) doc) (documents coll),
           calls := calls coll @ [InsertOne doc]\<rparr>)"

definition find_one :: "ObjectId \<Rightarrow> collection \<Rightarrow> pydict option \<times> collection" where
  "find_one doc_id coll =
     (map_of (documents coll) doc_id, coll\<lparr>calls := calls coll @ [FindOne doc_id]\<rparr>)"

definition update_one :: "ObjectId \<Rightarrow> pydict \<Rightarrow> collection \<Rightarrow> nat \<times> collection" where
  \<comment> \<open>\<open>update_one({"_id": doc_id}, {"$set": upd})\<close>; the result is \<open>matched_count\<close>\<close>
  "update_one doc_id upd coll =
     (case map_of (documents coll) doc_id of
        Some doc \<Rightarrow>
          (1, coll\<lparr>documents := AList.update doc_id (dict_update doc upd) (documents coll),
                   calls := calls coll @ [UpdateOne doc_id upd]\<rparr>)
      | None \<Rightarrow> (0, coll\<lparr>calls := calls coll @ [UpdateOne doc_id upd]\<rparr>))"

definition delete_one :: "ObjectId \<Rightarrow> collection \<Rightarrow> nat \<times> collection" where
  \<comment> \<open>the result is \<open>deleted_count\<close>\<close>
  "delete_one doc_id coll =
     (case map_of (documents coll) doc_id of
        Some doc \<Rightarrow>
          (1, coll\<lparr>documents := AList.delete doc_id (documents coll),
                   calls := calls coll @ [DeleteOne doc_id]\<rparr>)
      | None \<Rightarrow> (0, coll\<lparr>calls := calls coll @ [DeleteOne doc_id]\<rparr>))"

text \<open>Python's \<open>xs[k:]\<close> and \<open>xs[:k]\<close>: a negative \<open>k\<close> counts from the end.\<close>

definition slice_from :: "'a list \<Rightarrow> int \<Rightarrow> 'a list" where
  "slice_from xs k = (if 0 \<le> k then drop (nat k) xs else drop (nat (int (length xs) + k)) xs)"

definition slice_to :: "'a list \<Rightarrow> int \<Rightarrow> 'a list" where
  "slice_to xs k = (if 0 \<le> k then take (nat k) xs else take (nat (int (length xs) + k)) xs)"

record MockCursor =
  docs :: "pydict list"
  skip_count :: int
  limit_count :: "int option"

definition find :: "collection \<Rightarrow> MockCursor \<times> collection" where
  "find coll =
     (\<lparr>docs = map snd (documents coll), skip_count = 0, limit_count = None\<rparr>,
      coll\<lparr>calls := calls coll @ [Find]\<rparr>)"

definition skip :: "int \<Rightarrow> MockCursor \<Rightarrow> MockCursor" where
  "skip count cur = cur\<lparr>skip_count := count\<rparr>"

definition limit :: "int \<Rightarrow> MockCursor \<Rightarrow> MockCursor" where
  "limit count cur = cur\<lparr>limit_count := Some count\<rparr>"

definition cursor_items :: "MockCursor \<Rightarrow> pydict list" where
  \<comment> \<open>what \<open>async for\<close> gets from \<open>__anext__\<close>, one after the other\<close>
  "cursor_items cur =
     (let ds = slice_from (docs cur) (skip_count cur)
      in case limit_count cur of None \<Rightarrow> ds | Some l \<Rightarrow> slice_to ds l)"

section \<open>The handlers\<close>

definition create_hero ::
  "(string \<Rightarrow> int option) \<Rightarrow> ObjectId \<Rightarrow> Hero \<Rightarrow> collection \<Rightarrow> (error + Hero) \<times> collection" where
  "create_hero str_as_int doc_id hero coll =
     (let hero_dict = Hero_model_dump hero;
          (inserted_id, coll1) = insert_one doc_id hero_dict coll;
          hero_dict = AList.update ''_id'' (VOid inserted_id) hero_dict
      in (Hero_validate str_as_int hero_dict, coll1))"

fun read_loop ::
  "(string \<Rightarrow> int option) \<Rightarrow> pydict list \<Rightarrow> Hero list \<Rightarrow> error + Hero list" where
  "read_loop str_as_int [] heroes = Inr heroes"
| "read_loop str_as_int (document # rest) heroes =
     (case Hero_validate str_as_int document of
        Inl e \<Rightarrow> Inl e
      | Inr hero \<Rightarrow> read_loop str_as_int rest (heroes @ [hero]))"

definition read_heroes ::
  "(string \<Rightarrow> int option) \<Rightarrow> int option \<Rightarrow> int option \<Rightarrow> collection
     \<Rightarrow> (error + Hero list) \<times> collection" where
  \<comment> \<open>\<open>skip: int = 0\<close>, \<open>limit: int = Query(default=100, le=100)\<close>\<close>
  "read_heroes str_as_int skip_param limit_param coll =
     (let skip_arg = (case skip_param of None \<Rightarrow> 0 | Some s \<Rightarrow> s);
          limit_arg = (case limit_param of None \<Rightarrow> 100 | Some l \<Rightarrow> l)
      in if limit_arg > 100 then (Inl RequestValidationError, coll)
         else (let (cursor, coll1) = find coll;
                   cursor = limit limit_arg (skip skip_arg cursor)
               in (read_loop str_as_int (cursor_items cursor) [], coll1)))"

definition read_hero ::
  "(string \<Rightarrow> int option) \<Rightarrow> string \<Rightarrow> collection \<Rightarrow> (error + Hero) \<times> collection" where
  "read_hero str_as_int hero_id coll =
     (case ObjectId_of_str hero_id of
        None \<Rightarrow> (Inl (HTTPException 400 ''Invalid hero ID format''), coll)
      | Some object_id \<Rightarrow>
          (let (hero, coll1) = find_one object_id coll
           in case hero of
                None \<Rightarrow> (Inl (HTTPException 404 ''Hero not found''), coll1)
              | Some doc \<Rightarrow> (Hero_validate str_as_int doc, coll1)))"

definition refetch ::
  "(string \<Rightarrow> int option) \<Rightarrow> ObjectId \<Rightarrow> collection \<Rightarrow> (error + Hero) \<times> collection" where
  \<comment> \<open>the last four lines of \<open>update_hero\<close>, run unless the 404 above was raised\<close>
  "refetch str_as_int object_id coll =
     (let (updated_hero, coll1) = find_one object_id coll
      in case updated_hero of
           None \<Rightarrow> (Inl (HTTPException 404 ''Hero not found''), coll1)
         | Some doc \<Rightarrow> (Hero_validate str_as_int doc, coll1))"

definition update_hero ::
  "(string \<Rightarrow> int option) \<Rightarrow> string \<Rightarrow> HeroUpdate \<Rightarrow> collection
     \<Rightarrow> (error + Hero) \<times> collection" where
  "update_hero str_as_int hero_id hero coll =
     (case ObjectId_of_str hero_id of
        None \<Rightarrow> (Inl (HTTPException 400 ''Invalid hero ID format''), coll)
      | Some object_id \<Rightarrow>
          (let hero_dict = HeroUpdate_model_dump hero
           in if length hero_dict \<ge> 1
              then (let (matched_count, coll1) = update_one object_id hero_dict coll
                    in if matched_count = 0
                       then (Inl (HTTPException 404 ''Hero not found''), coll1)
                       else refetch str_as_int object_id coll1)
              else refetch str_as_int object_id coll))"

definition delete_hero :: "string \<Rightarrow> collection \<Rightarrow> (error + (string \<times> bool) list) \<times> collection" where
  "delete_hero hero_id coll =
     (case ObjectId_of_str hero_id of
        None \<Rightarrow> (Inl (HTTPException 400 ''Invalid hero ID format''), coll)
      | Some object_id \<Rightarrow>
          (let (deleted_count, coll1) = delete_one object_id coll
           in if deleted_count = 0
              then (Inl (HTTPException 404 ''Hero not found''), coll1)
              else (Inr [(''ok'', True)], coll1)))"

text \<open>
  A request reaches \<open>create_hero\<close> and \<open>update_hero\<close> after the framework has built the
  parameter \<open>hero\<close> from the JSON body: a body that does not validate is answered
  with 422 and the handler does not run.
\<close>

definition post_heroes ::
  "(string \<Rightarrow> int option) \<Rightarrow> ObjectId \<Rightarrow> pydict \<Rightarrow> collection \<Rightarrow> (error + Hero) \<times> collection" where
  "post_heroes str_as_int doc_id body coll =
     (case Hero_validate str_as_int body of
        Inl ValidationError \<Rightarrow> (Inl RequestValidationError, coll)
      | Inl e \<Rightarrow> (Inl e, coll)
      | Inr hero \<Rightarrow> create_hero str_as_int doc_id hero coll)"

definition patch_heroes ::
  "(string \<Rightarrow> int option) \<Rightarrow> string \<Rightarrow> pydict \<Rightarrow> collection \<Rightarrow> (error + Hero) \<times> collection" where
  "patch_heroes str_as_int hero_id body coll =
     (case HeroUpdate_validate str_as_int body of
        Inl e \<Rightarrow> (Inl RequestValidationError, coll)
      | Inr hero \<Rightarrow> update_hero str_as_int hero_id hero coll)"

text \<open>
  Data of the examples: an identifier as the store makes them (12 bytes) and the hero of
  the repository's tests.
\<close>

abbreviation id_507f :: ObjectId where
  "id_507f \<equiv> ObjectId [80, 127, 31, 119, 188, 248, 108, 215, 153, 67, 144, 17]"

abbreviation no_str_as_int :: "string \<Rightarrow> int option" where
  "no_str_as_int \<equiv> (\<lambda>s. None)"

abbreviation deadpond_doc :: pydict where
  "deadpond_doc \<equiv>
     [(''name'', VStr ''Deadpond''), (''age'', VInt 30), (''secret_name'', VStr ''Dive Wilson''),
      (''_id'', VOid id_507f)]"

abbreviation deadpond :: Hero where
  "deadpond \<equiv>
     \<lparr>Hero_id = Some id_507f, Hero_name = ''Deadpond'', Hero_age = Some 30,
      Hero_secret_name = ''Dive Wilson''\<rparr>"

abbreviation id_5080 :: ObjectId where
  "id_5080 \<equiv> ObjectId [80, 128, 31, 119, 188, 248, 108, 215, 153, 67, 144, 18]"

abbreviation spider_boy_doc :: pydict where
  "spider_boy_doc \<equiv>
     [(''name'', VStr ''Spider-Boy''), (''age'', VInt 25),
      (''secret_name'', VStr ''Pedro Parqueador''), (''_id'', VOid id_5080)]"

abbreviation spider_boy :: Hero where
  "spider_boy \<equiv>
     \<lparr>Hero_id = Some id_5080, Hero_name = ''Spider-Boy'', Hero_age = Some 25,
      Hero_secret_name = ''Pedro Parqueador''\<rparr>"




section \<open>Identifiers: printing and parsing\<close>

lemma nibble_cases:
  assumes "n < (16::nat)"
  shows "n = 0 \<or> n = 1 \<or> n = 2 \<or> n = 3 \<or> n = 4 \<or> n = 5 \<or> n = 6 \<or> n = 7 \<or> n = 8
    \<or> n = 9 \<or> n = 10 \<or> n = 11 \<or> n = 12 \<or> n = 13 \<or> n = 14 \<or> n = 15"
  using assms by arith

lemma hexval_hexdigit: "n < 16 \<Longrightarrow> hexval (hexdigit n) = Some n"
  using nibble_cases [of n] by (auto simp: hexval_def hexdigit_def)

lemma hexdigit_not_space: "n < 16 \<Longrightarrow> \<not> is_space (hexdigit n)"
  using nibble_cases [of n] by (auto simp: is_space_def hexdigit_def)

lemma unat_div16: "unat (b :: 8 word) div 16 < 16"
  using unsigned_less [of b, where 'a = nat] by simp

lemma fromhex_hexlify: "fromhex (hexlify bs) = Some bs"
  by (induction bs) (simp_all add: hexlify_def hexval_hexdigit hexdigit_not_space unat_div16)

lemma length_hexlify: "length (hexlify bs) = 2 * length bs"
  by (induction bs) (simp_all add: hexlify_def)

lemma ObjectId_roundtrip:
  "length (binary oid) = 12 \<Longrightarrow> ObjectId_of_str (ObjectId_str oid) = Some oid"
  by (simp add: ObjectId_of_str_def ObjectId_str_def fromhex_hexlify length_hexlify)

lemma ObjectId_str_507f: "ObjectId_str id_507f = ''507f1f77bcf86cd799439011''"
  by (simp add: ObjectId_str_def hexlify_def hexdigit_def)

lemma ObjectId_of_str_507f: "ObjectId_of_str ''507f1f77bcf86cd799439011'' = Some id_507f"
  by (simp add: ObjectId_of_str_def hexval_def is_space_def)

lemma ObjectId_of_str_invalid: "ObjectId_of_str ''invalid-id'' = None"
  by (simp add: ObjectId_of_str_def)






section \<open>What the handlers compute\<close>

lemma Hero_validate_model_dump:
  "Hero_validate sai (AList.update ''_id'' (VOid oid) (Hero_model_dump hero))
     = Inr (hero\<lparr>Hero_id := Some oid\<rparr>)"
  by (simp add: Hero_validate_def Hero_model_dump_def id_input_def with_default_def
      nullable_def PyObjectId_schema_def required_def str_schema_def int_schema_def
      dump_int_def split: option.splits)

lemma create_hero_eq:
  "create_hero sai doc_id hero coll =
     (Inr (hero\<lparr>Hero_id := Some doc_id\<rparr>),
      coll\<lparr>documents :=
             AList.update doc_id (AList.update ''_id'' (VOid doc_id) (Hero_model_dump hero))
               (documents coll),
           calls := calls coll @ [InsertOne (Hero_model_dump hero)]\<rparr>)"
  by (simp add: create_hero_def insert_one_def Hero_validate_model_dump Let_def)

lemma post_heroes_cases:
  "post_heroes sai doc_id body coll = (Inr created, coll1) \<Longrightarrow>
     \<exists>hero. Hero_validate sai body = Inr hero \<and>
       create_hero sai doc_id hero coll = (Inr created, coll1)"
  by (auto simp: post_heroes_def split: sum.splits error.splits)

lemma delete_filter: "AList.delete k al = filter (\<lambda>p. fst p \<noteq> k) al"
  by (induction al) auto

lemma refetch_eq:
  "refetch sai object_id coll =
     ((case map_of (documents coll) object_id of
         None \<Rightarrow> Inl (HTTPException 404 ''Hero not found'')
       | Some doc \<Rightarrow> Hero_validate sai doc),
      coll\<lparr>calls := calls coll @ [FindOne object_id]\<rparr>)"
  by (simp add: refetch_def find_one_def split: option.splits)

lemma Hero_validate_not_HTTPException:
  "Hero_validate sai d \<noteq> Inl (HTTPException code detail)"
  by (simp add: Hero_validate_def Let_def split: sum.splits error.splits)

lemma Hero_validate_deadpond: "Hero_validate sai deadpond_doc = Inr deadpond"
  by (simp add: Hero_validate_def id_input_def with_default_def nullable_def
      PyObjectId_schema_def required_def str_schema_def int_schema_def)

lemma map_of_dict_update:
  "map_of (dict_update d e) k =
     (case map_of (rev e) k of None \<Rightarrow> map_of d k | Some v \<Rightarrow> Some v)"
proof (induction e arbitrary: d)
  case Nil
  then show ?case by (simp add: dict_update_def)
next
  case (Cons p e)
  obtain k' v' where p: "p = (k', v')" by (cases p)
  have "dict_update d (p # e) = dict_update (AList.update k' v' d) e"
    by (simp add: dict_update_def p)
  then show ?case
    using Cons.IH [of "AList.update k' v' d"]
    by (simp add: p update_conv' map_add_def split: option.splits)
qed

lemma Hero_validate_Inr_iff:
  "Hero_validate sai d = Inr h \<longleftrightarrow>
     with_default None (nullable PyObjectId_schema) (id_input d) = Inr (Hero_id h) \<and>
     required str_schema (map_of d ''name'') = Inr (Hero_name h) \<and>
     with_default None (nullable (int_schema sai)) (map_of d ''age'') = Inr (Hero_age h) \<and>
     required str_schema (map_of d ''secret_name'') = Inr (Hero_secret_name h)"
  by (cases h) (auto simp: Hero_validate_def Let_def split: sum.splits error.splits)

lemma dump_int_valid: "with_default None (nullable (int_schema sai)) (Some (dump_int a)) = Inr a"
  by (simp add: with_default_def nullable_def int_schema_def dump_int_def split: option.splits)

lemma update_hero_existing:
  assumes "ObjectId_of_str hero_id = Some object_id"
    and "map_of (documents coll) object_id = Some doc"
    and "HeroUpdate_model_dump hero \<noteq> []"
  shows "update_hero sai hero_id hero coll =
     (Hero_validate sai (dict_update doc (HeroUpdate_model_dump hero)),
      coll\<lparr>documents :=
             AList.update object_id (dict_update doc (HeroUpdate_model_dump hero)) (documents coll),
           calls := calls coll @ [UpdateOne object_id (HeroUpdate_model_dump hero),
                                  FindOne object_id]\<rparr>)"
proof -
  have "1 \<le> length (HeroUpdate_model_dump hero)"
    using assms(3) by (cases "HeroUpdate_model_dump hero") simp_all
  then show ?thesis
    using assms(1,2)
    by (simp add: update_hero_def update_one_def refetch_eq update_conv' Let_def)
qed

lemma update_hero_nothing_set:
  assumes "ObjectId_of_str hero_id = Some object_id"
    and "HeroUpdate_model_dump hero = []"
  shows "update_hero sai hero_id hero coll = refetch sai object_id coll"
  using assms by (simp add: update_hero_def)

lemma HeroUpdate_validate_InrD:
  assumes "HeroUpdate_validate sai body = Inr hero"
  shows "model_fields_set hero
           = filter (\<lambda>k. map_of body k \<noteq> None) [''name'', ''age'', ''secret_name'']"
    and "with_default None (nullable str_schema) (map_of body ''name'') = Inr (upd_name hero)"
    and "with_default None (nullable (int_schema sai)) (map_of body ''age'') = Inr (upd_age hero)"
    and "with_default None (nullable str_schema) (map_of body ''secret_name'')
           = Inr (upd_secret_name hero)"
  using assms by (auto simp: HeroUpdate_validate_def split: sum.splits)



lemma map_of_filter_key:
  "map_of (filter (\<lambda>(k, v). P k) xs) k = (if P k then map_of xs k else None)"
  by (induction xs) auto

lemma map_of_model_dump:
  "map_of (HeroUpdate_model_dump hero) k =
     (if k \<in> set (model_fields_set hero)
      then map_of [(''name'', dump_str (upd_name hero)), (''age'', dump_int (upd_age hero)),
                   (''secret_name'', dump_str (upd_secret_name hero))] k
      else None)"
  unfolding HeroUpdate_model_dump_def by (rule map_of_filter_key)

lemma map_of_rev_model_dump:
  "map_of (rev (HeroUpdate_model_dump hero)) k =
     (if k \<in> set (model_fields_set hero)
      then map_of [(''secret_name'', dump_str (upd_secret_name hero)),
                   (''age'', dump_int (upd_age hero)), (''name'', dump_str (upd_name hero))] k
      else None)"
  unfolding HeroUpdate_model_dump_def rev_filter by (simp only: map_of_filter_key rev.simps append.simps)

lemma HeroUpdate_validate_null:
  assumes "HeroUpdate_validate sai body = Inr hero"
  shows "map_of body ''name'' = Some VNone \<Longrightarrow> upd_name hero = None"
    and "map_of body ''age'' = Some VNone \<Longrightarrow> upd_age hero = None"
    and "map_of body ''secret_name'' = Some VNone \<Longrightarrow> upd_secret_name hero = None"
  using HeroUpdate_validate_InrD(2,3,4) [OF assms]
  by (simp_all add: with_default_def nullable_def)


lemma model_fields_set_validated:
  assumes "HeroUpdate_validate sai body = Inr hero"
  shows "''name'' \<in> set (model_fields_set hero) \<longleftrightarrow> map_of body ''name'' \<noteq> None"
    and "''age'' \<in> set (model_fields_set hero) \<longleftrightarrow> map_of body ''age'' \<noteq> None"
    and "''secret_name'' \<in> set (model_fields_set hero) \<longleftrightarrow> map_of body ''secret_name'' \<noteq> None"
  by (simp_all add: HeroUpdate_validate_InrD(1) [OF assms])

lemma HeroUpdate_validate_dump:
  assumes "HeroUpdate_validate sai body = Inr hero"
    and "k \<in> {''name'', ''age'', ''secret_name''}"
  shows "map_of body k = None \<Longrightarrow> map_of (rev (HeroUpdate_model_dump hero)) k = None"
    and "map_of body k = Some VNone \<Longrightarrow> map_of (rev (HeroUpdate_model_dump hero)) k = Some VNone"
    and "map_of body k = Some VNone \<Longrightarrow> map_of (HeroUpdate_model_dump hero) k = Some VNone"
    and "map_of body k = None \<Longrightarrow> map_of (HeroUpdate_model_dump hero) k = None"
proof -
  note m = model_fields_set_validated [OF assms(1)]
  note n = HeroUpdate_validate_null [OF assms(1)]
  have k: "k = ''name'' \<or> k = ''age'' \<or> k = ''secret_name''"
    using assms(2) by simp
  show "map_of body k = None \<Longrightarrow> map_of (rev (HeroUpdate_model_dump hero)) k = None"
    using k by (elim disjE) (simp_all add: map_of_rev_model_dump m)
  show "map_of body k = None \<Longrightarrow> map_of (HeroUpdate_model_dump hero) k = None"
    using k by (elim disjE) (simp_all add: map_of_model_dump m)
  show "map_of body k = Some VNone \<Longrightarrow> map_of (rev (HeroUpdate_model_dump hero)) k = Some VNone"
    using k by (elim disjE) (simp_all add: map_of_rev_model_dump m n dump_str_def dump_int_def)
  show "map_of body k = Some VNone \<Longrightarrow> map_of (HeroUpdate_model_dump hero) k = Some VNone"
    using k by (elim disjE) (simp_all add: map_of_model_dump m n dump_str_def dump_int_def)
qed


lemma Hero_validate_spider_boy: "Hero_validate sai spider_boy_doc = Inr spider_boy"
  by (simp add: Hero_validate_def id_input_def with_default_def nullable_def
      PyObjectId_schema_def required_def str_schema_def int_schema_def)

lemma read_loop_length:
  "read_loop sai ds acc = Inr hs \<Longrightarrow> length hs = length acc + length ds"
  by (induction ds arbitrary: acc) (auto split: sum.splits)

lemma read_loop_total:
  "\<forall>d\<in>set ds. \<exists>h. Hero_validate sai d = Inr h \<Longrightarrow> \<exists>hs. read_loop sai ds acc = Inr hs"
  by (induction ds arbitrary: acc) auto

lemma read_heroes_accepted:
  assumes "(case limit_param of None \<Rightarrow> 100 | Some l \<Rightarrow> l) \<le> 100"
  shows "read_heroes sai skip_param limit_param coll =
     (read_loop sai
        (slice_to (slice_from (map snd (documents coll))
                     (case skip_param of None \<Rightarrow> 0 | Some s \<Rightarrow> s))
           (case limit_param of None \<Rightarrow> 100 | Some l \<Rightarrow> l)) [],
      coll\<lparr>calls := calls coll @ [Find]\<rparr>)"
  using assms
  by (simp add: read_heroes_def find_def skip_def limit_def cursor_items_def Let_def)

lemma length_ObjectId_str: "length (ObjectId_str oid) = 2 * length (binary oid)"
  by (simp add: ObjectId_str_def length_hexlify)

lemma Hero_validate_without_age:
  assumes "map_of body ''name'' = Some (VStr n)"
    and "map_of body ''secret_name'' = Some (VStr s)"
    and "map_of body ''age'' = None"
    and "with_default None (nullable PyObjectId_schema) (id_input body) = Inr i"
  shows "Hero_validate sai body
           = Inr \<lparr>Hero_id = i, Hero_name = n, Hero_age = None, Hero_secret_name = s\<rparr>"
  using assms
  by (simp add: Hero_validate_def required_def str_schema_def with_default_def)

lemma id_field_accepted:
  assumes "id_input body = None \<or> id_input body = Some VNone \<or>
           (\<exists>x oid. id_input body = Some (VStr x) \<and> ObjectId_of_str x = Some oid)"
  shows "\<exists>i. with_default None (nullable PyObjectId_schema) (id_input body) = Inr i"
  using assms by (auto simp: with_default_def nullable_def PyObjectId_schema_def)








section \<open>Create, then read\<close>

text \<open>
  C1. When \<open>POST /heroes/\<close> succeeds with the record \<open>created\<close>, the \<open>_id\<close> of the
  response is the store's identifier printed by \<open>str\<close>, and \<open>GET /heroes/{id}\<close> with that
  string, on the collection the create left, answers \<open>created\<close> itself: the same \<open>id\<close>,
  \<open>name\<close>, \<open>age\<close> and \<open>secret_name\<close>. The identifiers the store makes are 12 bytes long.
\<close>

theorem create_then_read_roundtrip:
  assumes "post_heroes sai doc_id body coll = (Inr created, coll1)"
    and "length (binary doc_id) = 12"
  shows "map_of (Hero_response created) ''_id'' = Some (VStr (ObjectId_str doc_id)) \<and>
         read_hero sai (ObjectId_str doc_id) coll1
           = (Inr created, coll1\<lparr>calls := calls coll1 @ [FindOne doc_id]\<rparr>)"
proof -
  from assms(1) obtain hero where
    c: "create_hero sai doc_id hero coll = (Inr created, coll1)"
    using post_heroes_cases by blast
  have created: "created = hero\<lparr>Hero_id := Some doc_id\<rparr>"
    and coll1: "coll1 = coll\<lparr>documents :=
             AList.update doc_id (AList.update ''_id'' (VOid doc_id) (Hero_model_dump hero))
               (documents coll),
           calls := calls coll @ [InsertOne (Hero_model_dump hero)]\<rparr>"
    using c by (simp_all add: create_hero_eq)
  have "map_of (documents coll1) doc_id
          = Some (AList.update ''_id'' (VOid doc_id) (Hero_model_dump hero))"
    by (simp add: coll1 update_conv')
  then have "read_hero sai (ObjectId_str doc_id) coll1
           = (Inr created, coll1\<lparr>calls := calls coll1 @ [FindOne doc_id]\<rparr>)"
    by (simp add: read_hero_def ObjectId_roundtrip assms(2) find_one_def
        Hero_validate_model_dump created)
  moreover have "map_of (Hero_response created) ''_id'' = Some (VStr (ObjectId_str doc_id))"
    by (simp add: created Hero_response_def)
  ultimately show ?thesis by simp
qed

theorem create_then_read_roundtrip_witness:
  "post_heroes no_str_as_int id_507f
     [(''name'', VStr ''Deadpond''), (''secret_name'', VStr ''Dive Wilson''), (''age'', VInt 30)]
     \<lparr>documents = [], calls = []\<rparr>
     = (Inr deadpond,
        \<lparr>documents = [(id_507f, deadpond_doc)],
         calls = [InsertOne [(''name'', VStr ''Deadpond''), (''age'', VInt 30),
                             (''secret_name'', VStr ''Dive Wilson'')]]\<rparr>) \<and>
   length (binary id_507f) = 12 \<and>
   map_of (Hero_response deadpond) ''_id'' = Some (VStr ''507f1f77bcf86cd799439011'') \<and>
   read_hero no_str_as_int ''507f1f77bcf86cd799439011''
     \<lparr>documents = [(id_507f, deadpond_doc)],
      calls = [InsertOne [(''name'', VStr ''Deadpond''), (''age'', VInt 30),
                          (''secret_name'', VStr ''Dive Wilson'')]]\<rparr>
     = (Inr deadpond,
        \<lparr>documents = [(id_507f, deadpond_doc)],
         calls = [InsertOne [(''name'', VStr ''Deadpond''), (''age'', VInt 30),
                             (''secret_name'', VStr ''Dive Wilson'')],
                  FindOne id_507f]\<rparr>)"
proof -
  have p: "post_heroes no_str_as_int id_507f
     [(''name'', VStr ''Deadpond''), (''secret_name'', VStr ''Dive Wilson''), (''age'', VInt 30)]
     \<lparr>documents = [], calls = []\<rparr>
     = (Inr deadpond,
        \<lparr>documents = [(id_507f, deadpond_doc)],
         calls = [InsertOne [(''name'', VStr ''Deadpond''), (''age'', VInt 30),
                             (''secret_name'', VStr ''Dive Wilson'')]]\<rparr>)"
    by (simp add: post_heroes_def Hero_validate_def id_input_def with_default_def nullable_def
        PyObjectId_schema_def required_def str_schema_def int_schema_def create_hero_def
        Hero_model_dump_def dump_int_def insert_one_def)
  have l: "length (binary id_507f) = 12" by simp
  show ?thesis
    using create_then_read_roundtrip [OF p l] p by (simp add: ObjectId_str_507f)
qed

section \<open>Malformed identifiers\<close>




section \<open>An update that sets no field\<close>

text \<open>
  For a well-formed identifier and a body with no set field (\<open>model_dump\<close> with
  \<open>exclude_unset\<close> is empty), \<open>update_hero\<close> awaits one operation only, the \<open>find_one\<close>
  of the re-fetch, and no \<open>update_one\<close>: the documents are as before. When the stored
  document is a \<open>Hero\<close>, it is the answer, unchanged. The 404 is raised exactly when no
  document has the identifier at the re-fetch.
\<close>

lemma empty_update_refetches:
  assumes "ObjectId_of_str hero_id = Some object_id"
    and "HeroUpdate_model_dump hero = []"
  shows "snd (update_hero sai hero_id hero coll)
           = coll\<lparr>calls := calls coll @ [FindOne object_id]\<rparr> \<and>
         (\<forall>doc stored.
            map_of (documents coll) object_id = Some doc \<and> Hero_validate sai doc = Inr stored
            \<longrightarrow> fst (update_hero sai hero_id hero coll) = Inr stored) \<and>
         (fst (update_hero sai hero_id hero coll) = Inl (HTTPException 404 ''Hero not found'')
            \<longleftrightarrow> map_of (documents coll) object_id = None)"
  using assms
  by (auto simp: update_hero_def refetch_eq Hero_validate_not_HTTPException split: option.splits)

text \<open>
  C2. The claim says that \<open>PATCH\<close> with no set field answers 200 with the current record
  whenever the record exists. The code does not do so on the record that
  \<open>PATCH {"name": null}\<close> leaves: \<open>HeroUpdate\<close> takes \<open>null\<close> for \<open>name\<close>, \<open>update_one\<close>
  stores it, and from then on \<open>Hero(**updated_hero)\<close> at the end of \<open>update_hero\<close> raises
  pydantic's \<open>ValidationError\<close>, which nothing catches. The record exists, the mutation
  is skipped, the re-fetch finds it, and the answer is 500.
\<close>

theorem empty_update_after_null_name:
  "snd (patch_heroes no_str_as_int ''507f1f77bcf86cd799439011'' [(''name'', VNone)]
          \<lparr>documents = [(id_507f, deadpond_doc)], calls = []\<rparr>)
     = \<lparr>documents =
          [(id_507f, [(''name'', VNone), (''age'', VInt 30),
                      (''secret_name'', VStr ''Dive Wilson''), (''_id'', VOid id_507f)])],
        calls = [UpdateOne id_507f [(''name'', VNone)], FindOne id_507f]\<rparr> \<and>
   patch_heroes no_str_as_int ''507f1f77bcf86cd799439011'' []
     \<lparr>documents =
        [(id_507f, [(''name'', VNone), (''age'', VInt 30),
                    (''secret_name'', VStr ''Dive Wilson''), (''_id'', VOid id_507f)])],
      calls = [UpdateOne id_507f [(''name'', VNone)], FindOne id_507f]\<rparr>
     = (Inl ValidationError,
        \<lparr>documents =
           [(id_507f, [(''name'', VNone), (''age'', VInt 30),
                       (''secret_name'', VStr ''Dive Wilson''), (''_id'', VOid id_507f)])],
         calls = [UpdateOne id_507f [(''name'', VNone)], FindOne id_507f, FindOne id_507f]\<rparr>) \<and>
   status_code ValidationError = 500"
  by (simp add: patch_heroes_def HeroUpdate_validate_def with_default_def nullable_def
      update_hero_def ObjectId_of_str_507f HeroUpdate_model_dump_def dump_str_def
      update_one_def dict_update_def refetch_def find_one_def Hero_validate_def id_input_def
      PyObjectId_schema_def required_def str_schema_def int_schema_def)

section \<open>Identifiers that name no record\<close>

text \<open>
  C6. For a well-formed identifier under which the collection has no document,
  \<open>delete_hero\<close> raises 404, and so does \<open>update_hero\<close> when the body sets at least one
  field; the documents of the collection are the same afterwards.
\<close>

theorem absent_record_is_404:
  assumes "ObjectId_of_str hero_id = Some object_id"
    and "map_of (documents coll) object_id = None"
    and "HeroUpdate_model_dump hero \<noteq> []"
  shows "fst (delete_hero hero_id coll) = Inl (HTTPException 404 ''Hero not found'') \<and>
         documents (snd (delete_hero hero_id coll)) = documents coll \<and>
         fst (update_hero sai hero_id hero coll) = Inl (HTTPException 404 ''Hero not found'') \<and>
         documents (snd (update_hero sai hero_id hero coll)) = documents coll"
proof -
  have "1 \<le> length (HeroUpdate_model_dump hero)"
    using assms(3) by (cases "HeroUpdate_model_dump hero") simp_all
  then show ?thesis
    using assms(1,2)
    by (simp add: delete_hero_def delete_one_def update_hero_def update_one_def)
qed

theorem absent_record_is_404_witness:
  "ObjectId_of_str ''507f1f77bcf86cd799439011'' = Some id_507f \<and>
   map_of (documents \<lparr>documents = [], calls = []\<rparr>) id_507f = None \<and>
   HeroUpdate_model_dump
     \<lparr>upd_name = Some ''Updated'', upd_age = None, upd_secret_name = None,
      model_fields_set = [''name'']\<rparr> \<noteq> [] \<and>
   fst (delete_hero ''507f1f77bcf86cd799439011'' \<lparr>documents = [], calls = []\<rparr>)
     = Inl (HTTPException 404 ''Hero not found'') \<and>
   documents (snd (delete_hero ''507f1f77bcf86cd799439011'' \<lparr>documents = [], calls = []\<rparr>)) = [] \<and>
   fst (update_hero no_str_as_int ''507f1f77bcf86cd799439011''
          \<lparr>upd_name = Some ''Updated'', upd_age = None, upd_secret_name = None,
           model_fields_set = [''name'']\<rparr>
          \<lparr>documents = [], calls = []\<rparr>)
     = Inl (HTTPException 404 ''Hero not found'') \<and>
   documents (snd (update_hero no_str_as_int ''507f1f77bcf86cd799439011''
          \<lparr>upd_name = Some ''Updated'', upd_age = None, upd_secret_name = None,
           model_fields_set = [''name'']\<rparr>
          \<lparr>documents = [], calls = []\<rparr>)) = []"
proof -
  have m: "map_of (documents \<lparr>documents = [], calls = []\<rparr>) id_507f = None"
    by simp
  have d: "HeroUpdate_model_dump
     \<lparr>upd_name = Some ''Updated'', upd_age = None, upd_secret_name = None,
      model_fields_set = [''name'']\<rparr> \<noteq> []"
    by (simp add: HeroUpdate_model_dump_def)
  show ?thesis
    using absent_record_is_404 [OF ObjectId_of_str_507f m d, of no_str_as_int]
      ObjectId_of_str_507f d
    by simp
qed

section \<open>Delete, then read\<close>

text \<open>
  C7. For a well-formed identifier under which the collection has a document,
  \<open>delete_hero\<close> returns \<open>{"ok": True}\<close>; the documents left are the former ones without
  those of that identifier, in the same order; and \<open>read_hero\<close> with the same identifier,
  run next, raises 404.
\<close>

theorem delete_then_read_404:
  assumes "ObjectId_of_str hero_id = Some object_id"
    and "map_of (documents coll) object_id = Some doc"
  shows "fst (delete_hero hero_id coll) = Inr [(''ok'', True)] \<and>
         documents (snd (delete_hero hero_id coll))
           = filter (\<lambda>p. fst p \<noteq> object_id) (documents coll) \<and>
         fst (read_hero sai hero_id (snd (delete_hero hero_id coll)))
           = Inl (HTTPException 404 ''Hero not found'')"
proof -
  have d: "delete_hero hero_id coll = (Inr [(''ok'', True)],
      coll\<lparr>documents := AList.delete object_id (documents coll),
           calls := calls coll @ [DeleteOne object_id]\<rparr>)"
    using assms by (simp add: delete_hero_def delete_one_def)
  have "map_of (AList.delete object_id (documents coll)) object_id = None"
    by (simp add: delete_conv')
  then show ?thesis
    using assms(1) by (simp add: d delete_filter [symmetric] read_hero_def find_one_def)
qed

theorem delete_then_read_404_witness:
  "ObjectId_of_str ''507f1f77bcf86cd799439011'' = Some id_507f \<and>
   map_of (documents \<lparr>documents = [(id_507f, deadpond_doc)], calls = []\<rparr>) id_507f
     = Some deadpond_doc \<and>
   delete_hero ''507f1f77bcf86cd799439011'' \<lparr>documents = [(id_507f, deadpond_doc)], calls = []\<rparr>
     = (Inr [(''ok'', True)], \<lparr>documents = [], calls = [DeleteOne id_507f]\<rparr>) \<and>
   fst (read_hero no_str_as_int ''507f1f77bcf86cd799439011''
          \<lparr>documents = [], calls = [DeleteOne id_507f]\<rparr>)
     = Inl (HTTPException 404 ''Hero not found'')"
proof -
  have m: "map_of (documents \<lparr>documents = [(id_507f, deadpond_doc)], calls = []\<rparr>) id_507f
             = Some deadpond_doc"
    by simp
  have d: "delete_hero ''507f1f77bcf86cd799439011''
             \<lparr>documents = [(id_507f, deadpond_doc)], calls = []\<rparr>
     = (Inr [(''ok'', True)], \<lparr>documents = [], calls = [DeleteOne id_507f]\<rparr>)"
    by (simp add: delete_hero_def ObjectId_of_str_507f delete_one_def)
  show ?thesis
    using delete_then_read_404 [OF ObjectId_of_str_507f m, of no_str_as_int]
      ObjectId_of_str_507f d
    by simp
qed

section \<open>Partial update\<close>

text \<open>
  For a record that is there (a document that is a \<open>Hero\<close>) and a body that sets
  \<open>name\<close>, to a string, and \<open>age\<close>, and nothing else, \<open>update_hero\<close> answers the stored
  record with \<open>name\<close> and \<open>age\<close> replaced by those of the body: \<open>secret_name\<close> and \<open>id\<close>
  are the stored ones.
\<close>

lemma update_name_and_age:
  assumes "ObjectId_of_str hero_id = Some object_id"
    and "map_of (documents coll) object_id = Some doc"
    and "Hero_validate sai doc = Inr stored"
    and "set (model_fields_set hero) = {''name'', ''age''}"
    and "upd_name hero = Some n"
  shows "fst (update_hero sai hero_id hero coll)
           = Inr (stored\<lparr>Hero_name := n, Hero_age := upd_age hero\<rparr>)"
proof -
  have dump: "HeroUpdate_model_dump hero = [(''name'', VStr n), (''age'', dump_int (upd_age hero))]"
    using assms(4,5) by (simp add: HeroUpdate_model_dump_def dump_str_def)
  let ?doc' = "dict_update doc (HeroUpdate_model_dump hero)"
  have look: "map_of ?doc' ''name'' = Some (VStr n)"
    "map_of ?doc' ''age'' = Some (dump_int (upd_age hero))"
    "map_of ?doc' ''secret_name'' = map_of doc ''secret_name''"
    "id_input ?doc' = id_input doc"
    by (simp_all add: dump map_of_dict_update id_input_def split: option.splits)
  have v: "Hero_validate sai ?doc' = Inr (stored\<lparr>Hero_name := n, Hero_age := upd_age hero\<rparr>)"
    using assms(3) unfolding Hero_validate_Inr_iff
    by (simp add: look dump_int_valid) (simp add: required_def str_schema_def)
  have "HeroUpdate_model_dump hero \<noteq> []"
    by (simp add: dump)
  from update_hero_existing [OF assms(1,2) this] show ?thesis
    by (simp add: v)
qed

text \<open>
  C5. The claim is about every body that sets \<open>name\<close> and \<open>age\<close>, and a body sets
  \<open>name\<close> also when it gives \<open>null\<close> for it. There the code does not return a record:
  \<open>HeroUpdate\<close> declares \<open>name: Optional[str]\<close>, so the body validates, \<open>update_one\<close>
  stores \<open>None\<close> as the name, and \<open>Hero(**updated_hero)\<close>, where \<open>name\<close> is a \<open>str\<close>,
  raises pydantic's \<open>ValidationError\<close>, which nothing catches: the answer is 500. The
  same \<open>null\<close> in the body of a \<open>POST\<close> is refused with 422.
\<close>

theorem update_null_name_and_age:
  "patch_heroes no_str_as_int ''507f1f77bcf86cd799439011''
     [(''name'', VNone), (''age'', VInt 31)]
     \<lparr>documents = [(id_507f, deadpond_doc)], calls = []\<rparr>
     = (Inl ValidationError,
        \<lparr>documents =
           [(id_507f, [(''name'', VNone), (''age'', VInt 31),
                       (''secret_name'', VStr ''Dive Wilson''), (''_id'', VOid id_507f)])],
         calls = [UpdateOne id_507f [(''name'', VNone), (''age'', VInt 31)],
                  FindOne id_507f]\<rparr>) \<and>
   status_code ValidationError = 500 \<and>
   post_heroes no_str_as_int id_5080
     [(''name'', VNone), (''secret_name'', VStr ''Dive Wilson'')]
     \<lparr>documents = [], calls = []\<rparr>
     = (Inl RequestValidationError, \<lparr>documents = [], calls = []\<rparr>)"
  by (simp add: patch_heroes_def HeroUpdate_validate_def with_default_def nullable_def
      update_hero_def ObjectId_of_str_507f HeroUpdate_model_dump_def dump_str_def dump_int_def
      update_one_def dict_update_def refetch_def find_one_def Hero_validate_def id_input_def
      PyObjectId_schema_def required_def str_schema_def int_schema_def post_heroes_def)

text \<open>
  C10. Take \<open>PATCH /heroes/{id}\<close> on a record that is there, with a body that validates
  as \<open>HeroUpdate\<close>, and one of the fields \<open>name\<close>, \<open>age\<close>, \<open>secret_name\<close>. When the
  body has the field with the value \<open>null\<close>, the field is in the change set with the value
  \<open>None\<close>, \<open>update_one\<close> is awaited with that change set, and the stored document has
  \<open>None\<close> in the field afterwards. When the body does not have the field, the field is not
  in the change set and the stored document keeps its value.
\<close>

theorem explicit_null_is_set:
  assumes "ObjectId_of_str hero_id = Some object_id"
    and "map_of (documents coll) object_id = Some doc"
    and "HeroUpdate_validate sai body = Inr hero"
    and "k \<in> {''name'', ''age'', ''secret_name''}"
  shows "\<exists>doc'. map_of (documents (snd (patch_heroes sai hero_id body coll))) object_id = Some doc' \<and>
           (map_of body k = Some VNone \<longrightarrow>
              (k, VNone) \<in> set (HeroUpdate_model_dump hero) \<and>
              UpdateOne object_id (HeroUpdate_model_dump hero)
                \<in> set (calls (snd (patch_heroes sai hero_id body coll))) \<and>
              map_of doc' k = Some VNone) \<and>
           (map_of body k = None \<longrightarrow>
              k \<notin> fst ` set (HeroUpdate_model_dump hero) \<and> map_of doc' k = map_of doc k)"
proof -
  let ?dump = "HeroUpdate_model_dump hero"
  let ?coll' = "snd (patch_heroes sai hero_id body coll)"
  note f = HeroUpdate_validate_dump [OF assms(3,4)]
  have p: "patch_heroes sai hero_id body coll = update_hero sai hero_id hero coll"
    using assms(3) by (simp add: patch_heroes_def)
  have absent: "k \<notin> fst ` set ?dump" if "map_of body k = None"
    using f(4) [OF that] by (simp add: map_of_eq_None_iff)
  have present: "(k, VNone) \<in> set ?dump" if "map_of body k = Some VNone"
    using f(3) [OF that] by (rule map_of_SomeD)
  show ?thesis
  proof (cases "?dump = []")
    case True
    have u: "update_hero sai hero_id hero coll = refetch sai object_id coll"
      using assms(1) True by (rule update_hero_nothing_set)
    have s: "map_of (documents ?coll') object_id = Some doc"
      using assms(2) by (simp add: p u refetch_eq)
    have "map_of body k \<noteq> Some VNone"
      using present True by auto
    then show ?thesis
      using s absent by simp
  next
    case False
    have u: "?coll' = coll\<lparr>documents := AList.update object_id (dict_update doc ?dump) (documents coll),
           calls := calls coll @ [UpdateOne object_id ?dump, FindOne object_id]\<rparr>"
      by (simp add: p update_hero_existing [OF assms(1,2) False])
    have s: "map_of (documents ?coll') object_id = Some (dict_update doc ?dump)"
      unfolding u by (simp add: update_conv')
    have c: "UpdateOne object_id ?dump \<in> set (calls ?coll')"
      unfolding u by simp
    have l1: "map_of (dict_update doc ?dump) k = Some VNone" if "map_of body k = Some VNone"
      by (simp add: map_of_dict_update f(2) [OF that])
    have l2: "map_of (dict_update doc ?dump) k = map_of doc k" if "map_of body k = None"
      by (simp add: map_of_dict_update f(1) [OF that])
    show ?thesis
      unfolding s using c l1 l2 absent present by simp
  qed
qed

theorem explicit_null_is_set_witness:
  "ObjectId_of_str ''507f1f77bcf86cd799439011'' = Some id_507f \<and>
   map_of (documents \<lparr>documents = [(id_507f, deadpond_doc)], calls = []\<rparr>) id_507f
     = Some deadpond_doc \<and>
   HeroUpdate_validate no_str_as_int [(''age'', VNone)]
     = Inr \<lparr>upd_name = None, upd_age = None, upd_secret_name = None,
            model_fields_set = [''age'']\<rparr> \<and>
   map_of [(''age'', VNone)] ''age'' = Some VNone \<and>
   (\<exists>doc'. map_of (documents (snd (patch_heroes no_str_as_int ''507f1f77bcf86cd799439011''
                                      [(''age'', VNone)]
                                      \<lparr>documents = [(id_507f, deadpond_doc)], calls = []\<rparr>)))
               id_507f = Some doc' \<and>
           map_of doc' ''age'' = Some VNone)"
proof -
  have m: "map_of (documents \<lparr>documents = [(id_507f, deadpond_doc)], calls = []\<rparr>) id_507f
             = Some deadpond_doc"
    by simp
  have v: "HeroUpdate_validate no_str_as_int [(''age'', VNone)]
     = Inr \<lparr>upd_name = None, upd_age = None, upd_secret_name = None,
            model_fields_set = [''age'']\<rparr>"
    by (simp add: HeroUpdate_validate_def with_default_def nullable_def)
  have k: "''age'' \<in> {''name'', ''age'', ''secret_name''}"
    by simp
  have b: "map_of [(''age'', VNone)] ''age'' = Some VNone"
    by simp
  from explicit_null_is_set [OF ObjectId_of_str_507f m v k]
  have "\<exists>doc'. map_of (documents (snd (patch_heroes no_str_as_int ''507f1f77bcf86cd799439011''
                                      [(''age'', VNone)]
                                      \<lparr>documents = [(id_507f, deadpond_doc)], calls = []\<rparr>)))
               id_507f = Some doc' \<and>
           map_of doc' ''age'' = Some VNone"
    unfolding b by blast
  then show ?thesis
    using ObjectId_of_str_507f m v b by blast
qed

section \<open>Listing\<close>

text \<open>
  C3 as it is stated fails. A \<open>limit\<close> above 100 is not cut down to 100: the parameter is
  declared \<open>Query(default=100, le=100)\<close> and the request is answered with 422. A negative
  \<open>limit\<close> passes that check, and the cursor then yields all documents but the last ones,
  which is more than \<open>min(limit, 100)\<close>.
\<close>

theorem read_heroes_limit_counterexample:
  "read_heroes no_str_as_int None (Some 101)
     \<lparr>documents = [(id_507f, deadpond_doc)], calls = []\<rparr>
     = (Inl RequestValidationError, \<lparr>documents = [(id_507f, deadpond_doc)], calls = []\<rparr>) \<and>
   fst (read_heroes no_str_as_int None (Some (- 1))
     \<lparr>documents = [(id_507f, deadpond_doc), (id_5080, spider_boy_doc)], calls = []\<rparr>)
     = Inr [deadpond] \<and>
   \<not> int (length [deadpond]) \<le> min (- 1) 100"
  by (simp add: read_heroes_def find_def skip_def limit_def cursor_items_def slice_from_def
      slice_to_def Hero_validate_deadpond)

text \<open>
  C3, amended. With \<open>limit\<close> absent (100) or between 1 and 100, and \<open>skip\<close> absent (0) or
  not negative, a 200 answer of \<open>read_heroes\<close> has as many heroes as are left after
  skipping, up to \<open>limit\<close>, so at most 100; and the answer is 200 when every document of
  the collection is a \<open>Hero\<close>. A \<open>limit\<close> above 100 is answered with 422 and the store is
  not asked.
\<close>

theorem read_heroes_at_most_limit:
  assumes "limit_arg = (case limit_param of None \<Rightarrow> 100 | Some l \<Rightarrow> l)"
    and "skip_arg = (case skip_param of None \<Rightarrow> 0 | Some s \<Rightarrow> s)"
  shows "(100 < limit_arg \<longrightarrow>
            read_heroes sai skip_param limit_param coll = (Inl RequestValidationError, coll)) \<and>
         (1 \<le> limit_arg \<and> limit_arg \<le> 100 \<and> 0 \<le> skip_arg \<longrightarrow>
            (\<forall>hs. fst (read_heroes sai skip_param limit_param coll) = Inr hs \<longrightarrow>
                length hs = min (nat limit_arg) (length (documents coll) - nat skip_arg) \<and>
                length hs \<le> 100) \<and>
            ((\<forall>p\<in>set (documents coll). \<exists>h. Hero_validate sai (snd p) = Inr h) \<longrightarrow>
                (\<exists>hs. fst (read_heroes sai skip_param limit_param coll) = Inr hs)))"
proof (intro conjI impI)
  assume "100 < limit_arg"
  then show "read_heroes sai skip_param limit_param coll = (Inl RequestValidationError, coll)"
    by (simp add: read_heroes_def assms(1))
next
  assume a: "1 \<le> limit_arg \<and> limit_arg \<le> 100 \<and> 0 \<le> skip_arg"
  let ?ds = "slice_to (slice_from (map snd (documents coll)) skip_arg) limit_arg"
  have r: "fst (read_heroes sai skip_param limit_param coll) = read_loop sai ?ds []"
    using a read_heroes_accepted [of limit_param sai skip_param coll]
    by (simp add: assms)
  have ds: "?ds = take (nat limit_arg) (drop (nat skip_arg) (map snd (documents coll)))"
    using a by (simp add: slice_to_def slice_from_def)
  show "\<forall>hs. fst (read_heroes sai skip_param limit_param coll) = Inr hs \<longrightarrow>
          length hs = min (nat limit_arg) (length (documents coll) - nat skip_arg) \<and>
          length hs \<le> 100"
  proof (intro allI impI)
    fix hs
    assume "fst (read_heroes sai skip_param limit_param coll) = Inr hs"
    then have "length hs = length ?ds"
      using read_loop_length [of sai ?ds "[]" hs] by (simp add: r)
    moreover have "length ?ds = min (nat limit_arg) (length (documents coll) - nat skip_arg)"
      by (simp add: ds min.commute)
    moreover have "min (nat limit_arg) (length (documents coll) - nat skip_arg) \<le> 100"
      using a by linarith
    ultimately show "length hs = min (nat limit_arg) (length (documents coll) - nat skip_arg) \<and>
          length hs \<le> 100"
      by simp
  qed
  show "\<exists>hs. fst (read_heroes sai skip_param limit_param coll) = Inr hs"
    if v: "\<forall>p\<in>set (documents coll). \<exists>h. Hero_validate sai (snd p) = Inr h"
  proof -
    have "set ?ds \<subseteq> snd ` set (documents coll)"
      unfolding ds using set_take_subset set_drop_subset by fastforce
    then have "\<forall>d\<in>set ?ds. \<exists>h. Hero_validate sai d = Inr h"
      using v by auto
    then show ?thesis
      using read_loop_total [of ?ds sai "[]"] by (simp add: r)
  qed
qed

theorem read_heroes_at_most_limit_witness:
  "(1::int) = (case Some 1 of None \<Rightarrow> 100 | Some l \<Rightarrow> l) \<and>
   (0::int) = (case None of None \<Rightarrow> 0 | Some s \<Rightarrow> s) \<and>
   Hero_validate no_str_as_int deadpond_doc = Inr deadpond \<and>
   Hero_validate no_str_as_int spider_boy_doc = Inr spider_boy \<and>
   (\<exists>hs. fst (read_heroes no_str_as_int None (Some 1)
                \<lparr>documents = [(id_507f, deadpond_doc), (id_5080, spider_boy_doc)],
                 calls = []\<rparr>) = Inr hs \<and>
         length hs = 1)"
proof -
  let ?coll = "\<lparr>documents = [(id_507f, deadpond_doc), (id_5080, spider_boy_doc)], calls = []\<rparr>"
  have l: "(1::int) = (case Some 1 of None \<Rightarrow> 100 | Some l \<Rightarrow> l)"
    by simp
  have s: "(0::int) = (case None of None \<Rightarrow> 0 | Some s \<Rightarrow> s)"
    by simp
  have v: "\<forall>p\<in>set (documents ?coll). \<exists>h. Hero_validate no_str_as_int (snd p) = Inr h"
    by (simp add: Hero_validate_deadpond Hero_validate_spider_boy)
  note t = read_heroes_at_most_limit [OF l s, of no_str_as_int ?coll]
  have b: "(1::int) \<le> 1 \<and> (1::int) \<le> 100 \<and> (0::int) \<le> 0"
    by simp
  from t b v obtain hs where
    hs: "fst (read_heroes no_str_as_int None (Some 1) ?coll) = Inr hs"
    by blast
  with t b have "length hs = min (nat 1) (length (documents ?coll) - nat 0)"
    by blast
  then have "length hs = 1"
    by simp
  with hs l s Hero_validate_deadpond [of no_str_as_int]
    Hero_validate_spider_boy [of no_str_as_int]
  show ?thesis
    by blast
qed

section \<open>Creating\<close>

text \<open>
  Take a body with strings for \<open>name\<close> and \<open>secret_name\<close> and without \<open>age\<close>, whose
  identifier (\<open>_id\<close>, else \<open>id\<close>) is absent, \<open>null\<close> or a string that \<open>ObjectId\<close>
  accepts. The create succeeds: the record has \<open>age = None\<close> and the identifier the
  store has just assigned, whose printed form has 24 characters; the stored document
  and the answer do not depend on the identifier of the body.
\<close>

lemma create_without_age:
  assumes "map_of body ''name'' = Some (VStr n)"
    and "map_of body ''secret_name'' = Some (VStr s)"
    and "map_of body ''age'' = None"
    and "length (binary doc_id) = 12"
    and "id_input body = None \<or> id_input body = Some VNone \<or>
         (\<exists>x oid. id_input body = Some (VStr x) \<and> ObjectId_of_str x = Some oid)"
  shows "post_heroes sai doc_id body coll =
           (Inr \<lparr>Hero_id = Some doc_id, Hero_name = n, Hero_age = None, Hero_secret_name = s\<rparr>,
            coll\<lparr>documents :=
                   AList.update doc_id
                     [(''name'', VStr n), (''age'', VNone), (''secret_name'', VStr s),
                      (''_id'', VOid doc_id)]
                     (documents coll),
                 calls := calls coll @
                   [InsertOne [(''name'', VStr n), (''age'', VNone),
                               (''secret_name'', VStr s)]]\<rparr>) \<and>
         length (ObjectId_str doc_id) = 24"
proof -
  obtain i where "with_default None (nullable PyObjectId_schema) (id_input body) = Inr i"
    using assms(5) id_field_accepted by blast
  then have "Hero_validate sai body
           = Inr \<lparr>Hero_id = i, Hero_name = n, Hero_age = None, Hero_secret_name = s\<rparr>"
    using assms(1,2,3) by (rule Hero_validate_without_age [rotated 3])
  then have "post_heroes sai doc_id body coll =
           (Inr \<lparr>Hero_id = Some doc_id, Hero_name = n, Hero_age = None, Hero_secret_name = s\<rparr>,
            coll\<lparr>documents :=
                   AList.update doc_id
                     [(''name'', VStr n), (''age'', VNone), (''secret_name'', VStr s),
                      (''_id'', VOid doc_id)]
                     (documents coll),
                 calls := calls coll @
                   [InsertOne [(''name'', VStr n), (''age'', VNone),
                               (''secret_name'', VStr s)]]\<rparr>)"
    by (simp add: post_heroes_def create_hero_eq Hero_model_dump_def dump_int_def)
  moreover have "length (ObjectId_str doc_id) = 24"
    by (simp add: length_ObjectId_str assms(4))
  ultimately show ?thesis
    by simp
qed

text \<open>
  C8. The claim says that the create succeeds and that any identifier the client puts
  in the body is ignored, and \<open>create_hero\<close> does leave the field out
  (\<open>exclude={"id"}\<close>). But the field \<open>id\<close> of \<open>Hero\<close> is a \<open>PyObjectId\<close>, whose schema
  calls \<open>ObjectId(...)\<close> on a string while the body is validated, and bson's \<open>InvalidId\<close>
  is neither a validation error nor caught: with \<open>"_id": "invalid-id"\<close> the request
  ends in a 500 and nothing is created. The handlers that take the identifier from
  the path catch the same exception and answer 400.
\<close>

theorem create_with_malformed_id:
  "map_of [(''name'', VStr ''Deadpond''), (''secret_name'', VStr ''Dive Wilson''),
           (''_id'', VStr ''invalid-id'')] ''age'' = None \<and>
   post_heroes no_str_as_int id_507f
     [(''name'', VStr ''Deadpond''), (''secret_name'', VStr ''Dive Wilson''),
      (''_id'', VStr ''invalid-id'')]
     \<lparr>documents = [], calls = []\<rparr>
     = (Inl InvalidId, \<lparr>documents = [], calls = []\<rparr>) \<and>
   status_code InvalidId = 500 \<and>
   fst (read_hero no_str_as_int ''invalid-id'' \<lparr>documents = [], calls = []\<rparr>)
     = Inl (HTTPException 400 ''Invalid hero ID format'')"
  by (simp add: post_heroes_def Hero_validate_def id_input_def with_default_def nullable_def
      PyObjectId_schema_def ObjectId_of_str_invalid read_hero_def)




end
